theory Spec2Isabelle
  imports Main
begin

section \<open>Python values and dictionaries\<close>

text \<open>
  The values a caller stores in a dictionary are scalars (numbers, strings, None, ...)
  or plain dictionaries of such values. A dictionary nested in another one is a value
  of its own: no dictionary object occurs twice in a base, and none contains itself.
  A Python \<open>dict\<close> keeps its keys distinct and in insertion order: it is an association
  list, assignment replaces the value of a key in place or appends a new key at the
  end, and \<open>del\<close> removes the key.
\<close>

datatype ('k, 'a) val = Scalar 'a | Dict "('k \<times> ('k, 'a) val) list"

fun dict_set :: "'k \<Rightarrow> 'v \<Rightarrow> ('k \<times> 'v) list \<Rightarrow> ('k \<times> 'v) list" where
  "dict_set key v [] = [(key, v)]"
| "dict_set key v ((k, u) # d) = (if k = key then (key, v) # d else (k, u) # dict_set key v d)"

fun dict_del :: "'k \<Rightarrow> ('k \<times> 'v) list \<Rightarrow> ('k \<times> 'v) list" where
  "dict_del key [] = []"
| "dict_del key ((k, u) # d) = (if k = key then dict_del key d else (k, u) # dict_del key d)"

text \<open>\<open>key in d\<close> is \<open>map_of d key \<noteq> None\<close>; \<open>d.get(key, default)\<close> is \<open>dict_get\<close>.\<close>

definition dict_get :: "('k \<times> 'v) list \<Rightarrow> 'k \<Rightarrow> 'v \<Rightarrow> 'v" where
  "dict_get d key dflt = (case map_of d key of None \<Rightarrow> dflt | Some v \<Rightarrow> v)"

section \<open>The class TransactionalDict\<close>

text \<open>
  An object of the class has the two fields \<open>_original\<close> and \<open>_overlay\<close>. An entry of the
  overlay is the class \<open>Undefined\<close> (the deletion marker), a plain value, or a nested
  \<open>TransactionalDict\<close> that \<open>__getitem__\<close> made around a dictionary of the base.

  The nested wrappers form a tree: a nested wrapper is owned by the overlay entry that
  holds it, and its \<open>_original\<close> is the dictionary found in the base at the time it was
  made. A method call on a nested wrapper is a call at a path of keys (\<open>at_path\<close>).
  A wrapper that is no longer in an overlay (its entry was overwritten, or the overlay
  was cleared) is no part of the state: calls on it reach neither the tree nor a base
  before it is committed itself.
\<close>

datatype ('k, 'a) tdict =
  TransactionalDict (original: "('k \<times> ('k, 'a) val) list") (overlay: "('k \<times> ('k, 'a) item) list")
and ('k, 'a) item = Undefined | Plain "('k, 'a) val" | Wrapper "('k, 'a) tdict"

datatype 'k key_error =
    Key 'k \<comment> \<open>\<open>KeyError(key)\<close> of a dictionary lookup or \<open>del\<close>\<close>
  | Deleted_in_transaction 'k \<comment> \<open>"Key ... has been deleted in current transaction."\<close>
  | Not_in_original_nor_transaction \<comment> \<open>"Key {key} not in original dict nor in transaction."\<close>

datatype 'k exc =
    KeyError "'k key_error"
  | TypeError
  | AssertionError
  | OtherException string \<comment> \<open>any other exception derived from \<open>Exception\<close>\<close>
  | NonException string \<comment> \<open>\<open>KeyboardInterrupt\<close>, \<open>SystemExit\<close>, \<open>GeneratorExit\<close>: not derived from \<open>Exception\<close>\<close>

fun is_Exception :: "'k exc \<Rightarrow> bool" where
  "is_Exception (NonException _) = False"
| "is_Exception _ = True"

definition init :: "('k \<times> ('k, 'a) val) list \<Rightarrow> ('k, 'a) tdict" where
  "init original_dict = TransactionalDict original_dict []"

text \<open>
  \<open>commit\<close> returns the state of the wrapper after the call and the exception raised, if
  any; the dictionary the method returns is \<open>original\<close> of that state. The loop runs
  over the items of the overlay in order, with the base as it is so far. When
  \<open>del self._original[key]\<close> raises, the loop stops there: the base keeps the writes
  done so far and the overlay is not cleared. The base of a nested wrapper and the
  entry of the parent's base are one object in the program and two values here; the
  assignment \<open>self._original[key] = value.commit()\<close> makes them agree whenever the
  nested \<open>commit\<close> returns. When the nested \<open>commit\<close> raises, the assignment is not
  reached, but the writes the nested \<open>commit\<close> did before went to that one object:
  where the parent's base holds the base of the nested wrapper under the key
  (\<open>shared\<close>, the state \<open>__getitem__\<close> leaves), they show in the parent's base too.
\<close>

definition shared :: "('k \<times> ('k, 'a) val) list \<Rightarrow> 'k \<Rightarrow> ('k, 'a) tdict \<Rightarrow> bool" where
  "shared orig key w \<longleftrightarrow> map_of orig key = Some (Dict (original w))"

fun commit :: "('k, 'a) tdict \<Rightarrow> ('k, 'a) tdict \<times> 'k exc option"
and commit_loop :: "('k \<times> ('k, 'a) item) list \<Rightarrow> ('k \<times> ('k, 'a) val) list
      \<Rightarrow> ('k \<times> ('k, 'a) item) list \<times> ('k \<times> ('k, 'a) val) list \<times> 'k exc option" where
  "commit (TransactionalDict orig ov) =
     (case commit_loop ov orig of
        (ov', orig', Some e) \<Rightarrow> (TransactionalDict orig' ov', Some e)
      | (ov', orig', None) \<Rightarrow> (TransactionalDict orig' [], None))"
| "commit_loop [] orig = ([], orig, None)"
| "commit_loop ((key, Wrapper w) # rest) orig =
     (case commit w of
        (w', Some e) \<Rightarrow>
          ((key, Wrapper w') # rest,
           (if shared orig key w then dict_set key (Dict (original w')) orig else orig), Some e)
      | (w', None) \<Rightarrow>
          (case commit_loop rest (dict_set key (Dict (original w')) orig) of
             (rest', orig', r) \<Rightarrow> ((key, Wrapper w') # rest', orig', r)))"
| "commit_loop ((key, Undefined) # rest) orig =
     (if map_of orig key = None then ((key, Undefined) # rest, orig, Some (KeyError (Key key)))
      else (case commit_loop rest (dict_del key orig) of
              (rest', orig', r) \<Rightarrow> ((key, Undefined) # rest', orig', r)))"
| "commit_loop ((key, Plain v) # rest) orig =
     (case commit_loop rest (dict_set key v orig) of
        (rest', orig', r) \<Rightarrow> ((key, Plain v) # rest', orig', r))"

text \<open>
  \<open>abort\<close> aborts the nested wrappers of the overlay, then replaces the overlay by an
  empty dictionary; the nested wrappers go with the old overlay. The dictionary the
  method returns is \<open>original\<close> of the state.
\<close>

fun abort :: "('k, 'a) tdict \<Rightarrow> ('k, 'a) tdict"
and abort_loop :: "('k \<times> ('k, 'a) item) list \<Rightarrow> ('k \<times> ('k, 'a) item) list" where
  "abort (TransactionalDict orig ov) = (let released = abort_loop ov in TransactionalDict orig [])"
| "abort_loop [] = []"
| "abort_loop ((key, Wrapper w) # rest) = (key, Wrapper (abort w)) # abort_loop rest"
| "abort_loop ((key, Undefined) # rest) = (key, Undefined) # abort_loop rest"
| "abort_loop ((key, Plain v) # rest) = (key, Plain v) # abort_loop rest"

text \<open>
  A value of the dictionary \<open>diff\<close> returns is a nested diff or the tuple
  \<open>(old, new)\<close>, each side a value or \<open>Undefined\<close>. \<open>original_get\<close> is
  \<open>self._original.get(key, Undefined)\<close>: a value of the base is a plain value.
\<close>

definition original_get :: "('k \<times> ('k, 'a) val) list \<Rightarrow> 'k \<Rightarrow> ('k, 'a) item" where
  "original_get orig key = (case map_of orig key of None \<Rightarrow> Undefined | Some v \<Rightarrow> Plain v)"

datatype ('k, 'a) diffv =
  Change "('k, 'a) item" "('k, 'a) item" | Nested "('k \<times> ('k, 'a) diffv) list"

fun diff :: "('k, 'a) tdict \<Rightarrow> ('k \<times> ('k, 'a) diffv) list"
and diff_loop :: "('k \<times> ('k, 'a) item) list \<Rightarrow> ('k \<times> ('k, 'a) val) list \<Rightarrow> ('k \<times> ('k, 'a) item) list
      \<Rightarrow> ('k \<times> ('k, 'a) diffv) list \<Rightarrow> ('k \<times> ('k, 'a) diffv) list" where
  "diff (TransactionalDict orig ov) = diff_loop ov orig ov []"
| "diff_loop [] orig ov acc = acc"
| "diff_loop ((key, Wrapper w) # rest) orig ov acc =
     diff_loop rest orig ov (dict_set key (Nested (diff w)) acc)"
| "diff_loop ((key, Undefined) # rest) orig ov acc =
     diff_loop rest orig ov
       (dict_set key (Change (original_get orig key) (dict_get ov key Undefined)) acc)"
| "diff_loop ((key, Plain v) # rest) orig ov acc =
     diff_loop rest orig ov
       (dict_set key (Change (original_get orig key) (dict_get ov key Undefined)) acc)"

text \<open>
  \<open>__getitem__\<close> returns the item and the state of the wrapper; a raise leaves the
  state as it was. \<open>wrap\<close> is the test
  \<open>isinstance(item, dict) and not isinstance(item, TransactionalDict)\<close> with the
  constructor call: a value of the base is never a \<open>TransactionalDict\<close>. The value
  that \<open>__setitem__\<close> takes is a plain value: a caller assigns neither the class
  \<open>Undefined\<close> nor a wrapper.
\<close>

fun wrap :: "('k, 'a) val \<Rightarrow> ('k, 'a) item" where
  "wrap (Dict d) = Wrapper (init d)"
| "wrap (Scalar a) = Plain (Scalar a)"

definition getitem :: "'k \<Rightarrow> ('k, 'a) tdict \<Rightarrow> 'k exc + ('k, 'a) item \<times> ('k, 'a) tdict" where
  "getitem key self =
     (case map_of (overlay self) key of
        Some item \<Rightarrow>
          (case item of
             Undefined \<Rightarrow> Inl (KeyError (Deleted_in_transaction key))
           | _ \<Rightarrow> Inr (item, self))
      | None \<Rightarrow>
          (case map_of (original self) key of
             None \<Rightarrow> Inl (KeyError (Key key))
           | Some v \<Rightarrow>
               Inr (wrap v, TransactionalDict (original self) (dict_set key (wrap v) (overlay self)))))"

definition setitem :: "'k \<Rightarrow> ('k, 'a) val \<Rightarrow> ('k, 'a) tdict \<Rightarrow> ('k, 'a) tdict" where
  "setitem key v self = TransactionalDict (original self) (dict_set key (Plain v) (overlay self))"

definition delitem :: "'k \<Rightarrow> ('k, 'a) tdict \<Rightarrow> 'k exc + ('k, 'a) tdict" where
  "delitem key self =
     (if map_of (original self) key \<noteq> None
      then Inr (TransactionalDict (original self) (dict_set key Undefined (overlay self)))
      else if map_of (overlay self) key \<noteq> None
      then Inr (TransactionalDict (original self) (dict_del key (overlay self)))
      else Inl (KeyError Not_in_original_nor_transaction))"

text \<open>
  \<open>__keys\<close> builds a set; \<open>__iter__\<close> returns \<open>iter\<close> of it, a set iterator, and
  \<open>__len__\<close> applies the builtin \<open>len\<close> to that iterator. The builtin \<open>len\<close> needs a
  \<open>__len__\<close> method: a set has one, an iterator has none and \<open>len\<close> raises \<open>TypeError\<close>.
\<close>

datatype 'k pyobj = PySet "'k set" | PySetIterator "'k set"

fun builtin_iter :: "'k pyobj \<Rightarrow> 'k pyobj" where
  "builtin_iter (PySet s) = PySetIterator s"
| "builtin_iter (PySetIterator s) = PySetIterator s"

fun builtin_len :: "'k pyobj \<Rightarrow> 'k exc + nat" where
  "builtin_len (PySet s) = Inr (card s)"
| "builtin_len (PySetIterator s) = Inl TypeError"

definition private_keys :: "('k, 'a) tdict \<Rightarrow> 'k set" where
  "private_keys self =
     set (filter (\<lambda>key. map_of (overlay self) key \<noteq> Some Undefined)
            (map fst (original self) @ map fst (overlay self)))"

definition iter :: "('k, 'a) tdict \<Rightarrow> 'k pyobj" where
  "iter self = builtin_iter (PySet (private_keys self))"

definition len :: "('k, 'a) tdict \<Rightarrow> 'k exc + nat" where
  "len self = builtin_len (iter self)"

section \<open>The context manager transaction\<close>

text \<open>
  The argument is any object; \<open>isinstance(original_dict, dict)\<close> holds of a
  dictionary only (the class \<open>TransactionalDict\<close> does not derive from \<open>dict\<close>), and
  the assertion is the first statement. \<open>handler\<close> is the clause \<open>except Exception\<close>,
  which an exception not derived from \<open>Exception\<close> passes without \<open>abort\<close>.
  The body of the \<open>with\<close> statement is the caller's: it
  takes the wrapper and leaves it in some state, with the exception it raised, if any.
  The result is the wrapper at the end (none when the assertion fails, before a
  wrapper exists) and the exception that leaves the \<open>with\<close> statement. \<open>commit\<close> is
  inside the \<open>try\<close>, so an exception it raises is handled like one of the body.
\<close>

datatype ('k, 'a) arg =
  DictArg "('k \<times> ('k, 'a) val) list" | TransactionalDictArg "('k, 'a) tdict" | OtherArg 'a

definition handler :: "('k, 'a) tdict \<Rightarrow> 'k exc \<Rightarrow> ('k, 'a) tdict option \<times> 'k exc option" where
  "handler transactional_dict e =
     (if is_Exception e then (Some (abort transactional_dict), Some e)
      else (Some transactional_dict, Some e))"

fun transaction :: "('k, 'a) arg \<Rightarrow> (('k, 'a) tdict \<Rightarrow> ('k, 'a) tdict \<times> 'k exc option)
      \<Rightarrow> ('k, 'a) tdict option \<times> 'k exc option" where
  "transaction (DictArg original_dict) body =
     (case body (init original_dict) of
        (t, Some e) \<Rightarrow> handler t e
      | (t, None) \<Rightarrow>
          (case commit t of
             (t', Some e) \<Rightarrow> handler t' e
           | (t', None) \<Rightarrow> (Some t', None)))"
| "transaction _ body = (None, Some AssertionError)"

section \<open>Sequences of calls\<close>

text \<open>
  A caller reaches a nested wrapper through the overlay entries that hold it: the
  path is the list of their keys, the empty path is the wrapper itself. A call that
  raises leaves the wrapper as it was.

  Only calls on wrappers are calls of the class. A path that ends in an entry that is
  no nested wrapper names no wrapper, no method of the class runs there, and
  \<open>at_path\<close> returns the tree as it is. What \<open>__getitem__\<close> returned for such an
  entry is the plain object the overlay holds; a caller who edits that object
  (a dictionary's own \<open>__setitem__\<close>) changes the entry, and the base as well when the
  base holds the same object. Such edits are the caller's and are not followed here:
  no statement below is about a wrapper after one of them.
\<close>

datatype ('k, 'a) method_call = Get 'k | Set 'k "('k, 'a) val" | Del 'k

fun call :: "('k, 'a) method_call \<Rightarrow> ('k, 'a) tdict \<Rightarrow> ('k, 'a) tdict" where
  "call (Get key) self = (case getitem key self of Inl e \<Rightarrow> self | Inr (item, self') \<Rightarrow> self')"
| "call (Set key v) self = setitem key v self"
| "call (Del key) self = (case delitem key self of Inl e \<Rightarrow> self | Inr self' \<Rightarrow> self')"

fun at_path :: "'k list \<Rightarrow> (('k, 'a) tdict \<Rightarrow> ('k, 'a) tdict) \<Rightarrow> ('k, 'a) tdict \<Rightarrow> ('k, 'a) tdict" where
  "at_path [] f self = f self"
| "at_path (key # path) f self =
     (case map_of (overlay self) key of
        Some (Wrapper w) \<Rightarrow>
          TransactionalDict (original self) (dict_set key (Wrapper (at_path path f w)) (overlay self))
      | _ \<Rightarrow> self)"

fun run :: "('k list \<times> ('k, 'a) method_call) list \<Rightarrow> ('k, 'a) tdict \<Rightarrow> ('k, 'a) tdict" where
  "run [] self = self"
| "run ((path, c) # cs) self = run cs (at_path path (call c) self)"

section \<open>States the methods produce\<close>

text \<open>
  In every state the methods produce from a new wrapper, the keys of an overlay are
  distinct (it is a dictionary), a deletion marker stands only under a key of the
  base (\<open>__delitem__\<close> writes it nowhere else), the base of a nested wrapper is the
  dictionary that the base holds under the key of the wrapper (\<open>__getitem__\<close> made
  the wrapper around it, and the base has not been written since), and the nested
  wrappers are in such a state themselves. In the program the two are one object;
  here they are two equal values.
\<close>

fun valid :: "('k, 'a) tdict \<Rightarrow> bool"
and valid_items :: "('k \<times> ('k, 'a) item) list \<Rightarrow> ('k \<times> ('k, 'a) val) list \<Rightarrow> bool" where
  "valid (TransactionalDict orig ov) = (distinct (map fst ov) \<and> valid_items ov orig)"
| "valid_items [] orig = True"
| "valid_items ((key, Wrapper w) # rest) orig =
     (map_of orig key = Some (Dict (original w)) \<and> valid w \<and> valid_items rest orig)"
| "valid_items ((key, Undefined) # rest) orig = (map_of orig key \<noteq> None \<and> valid_items rest orig)"
| "valid_items ((key, Plain v) # rest) orig = valid_items rest orig"

fun valid_item :: "('k \<times> ('k, 'a) val) list \<Rightarrow> 'k \<times> ('k, 'a) item \<Rightarrow> bool" where
  "valid_item orig (key, Wrapper w) = (map_of orig key = Some (Dict (original w)) \<and> valid w)"
| "valid_item orig (key, Undefined) = (map_of orig key \<noteq> None)"
| "valid_item orig (key, Plain v) = True"

text \<open>
  A call leaves the key \<open>key\<close> of a wrapper alone when it is not an assignment to
  \<open>key\<close> or a deletion of \<open>key\<close> on the wrapper itself, and not a call on the nested
  wrapper under \<open>key\<close> or below it.
\<close>

fun leaves :: "'k \<Rightarrow> 'k list \<times> ('k, 'a) method_call \<Rightarrow> bool" where
  "leaves key ([], Get k) = True"
| "leaves key ([], Set k v) = (k \<noteq> key)"
| "leaves key ([], Del k) = (k \<noteq> key)"
| "leaves key (k # path, c) = (k \<noteq> key)"

text \<open>Scalars of the examples: the integers and strings of the doctests.\<close>

datatype scalar = PyInt int | PyStr string

section \<open>Dictionaries\<close>

lemma map_of_dict_set: "map_of (dict_set key v d) = (map_of d)(key \<mapsto> v)"
  by (induction d) (auto simp: fun_eq_iff)

lemma map_of_dict_del: "map_of (dict_del key d) = (map_of d)(key := None)"
  by (induction d) (auto simp: fun_eq_iff)

lemma keys_dict_set: "fst ` set (dict_set key v d) = insert key (fst ` set d)"
  by (induction d) force+

lemma keys_dict_del: "fst ` set (dict_del key d) = fst ` set d - {key}"
  by (induction d) force+

lemma distinct_dict_set: "distinct (map fst d) \<Longrightarrow> distinct (map fst (dict_set key v d))"
  by (induction d) (auto simp: keys_dict_set)

lemma distinct_dict_del: "distinct (map fst d) \<Longrightarrow> distinct (map fst (dict_del key d))"
  by (induction d) (auto simp: keys_dict_del)

lemma set_dict_set: "set (dict_set key v d) \<subseteq> insert (key, v) (set d)"
  by (induction key v d rule: dict_set.induct) auto

lemma set_dict_del: "set (dict_del key d) \<subseteq> set d"
  by (induction key d rule: dict_del.induct) auto

section \<open>The doctests of the module\<close>

text \<open>
  The examples of the module's docstring, on the model: the overlay after the calls,
  the error of reading the deleted key, \<open>diff\<close>, \<open>commit\<close> and \<open>abort\<close>.
\<close>

lemma doctest_calls:
  "run [([], Set ''1'' (Scalar (PyStr ''a''))), ([], Set ''3'' (Scalar (PyInt 3))), ([], Del ''2''),
        ([], Set ''4'' (Scalar (PyInt 4))), ([], Del ''4''),
        ([], Get ''nested''), ([''nested''], Set ''1'' (Scalar (PyInt 2)))]
     (init [(''1'', Scalar (PyInt 1)), (''2'', Scalar (PyInt 2)), (''nested'', Dict [(''1'', Scalar (PyInt 1))])])
   = TransactionalDict
       [(''1'', Scalar (PyInt 1)), (''2'', Scalar (PyInt 2)), (''nested'', Dict [(''1'', Scalar (PyInt 1))])]
       [(''1'', Plain (Scalar (PyStr ''a''))), (''3'', Plain (Scalar (PyInt 3))), (''2'', Undefined),
        (''nested'', Wrapper (TransactionalDict [(''1'', Scalar (PyInt 1))] [(''1'', Plain (Scalar (PyInt 2)))]))]"
  by (simp add: init_def getitem_def setitem_def delitem_def)

lemma doctest_results:
  fixes d :: "(string, scalar) tdict"
  defines "d \<equiv> TransactionalDict
       [(''1'', Scalar (PyInt 1)), (''2'', Scalar (PyInt 2)), (''nested'', Dict [(''1'', Scalar (PyInt 1))])]
       [(''1'', Plain (Scalar (PyStr ''a''))), (''3'', Plain (Scalar (PyInt 3))), (''2'', Undefined),
        (''nested'', Wrapper (TransactionalDict [(''1'', Scalar (PyInt 1))] [(''1'', Plain (Scalar (PyInt 2)))]))]"
  shows "getitem ''2'' d = Inl (KeyError (Deleted_in_transaction ''2''))"
    and "private_keys d = {''1'', ''3'', ''nested''}"
    and "diff d = [(''1'', Change (Plain (Scalar (PyInt 1))) (Plain (Scalar (PyStr ''a'')))),
                   (''3'', Change Undefined (Plain (Scalar (PyInt 3)))),
                   (''2'', Change (Plain (Scalar (PyInt 2))) Undefined),
                   (''nested'', Nested [(''1'', Change (Plain (Scalar (PyInt 1))) (Plain (Scalar (PyInt 2))))])]"
    and "commit d = (TransactionalDict
                      [(''1'', Scalar (PyStr ''a'')), (''nested'', Dict [(''1'', Scalar (PyInt 2))]),
                       (''3'', Scalar (PyInt 3))] [], None)"
    and "abort d = TransactionalDict
                     [(''1'', Scalar (PyInt 1)), (''2'', Scalar (PyInt 2)),
                      (''nested'', Dict [(''1'', Scalar (PyInt 1))])] []"
  by (auto simp: d_def getitem_def private_keys_def original_get_def dict_get_def)

text \<open>
  A \<open>commit\<close> that raises: the nested wrapper under \<open>"n"\<close> holds a deletion marker
  for a key its base does not have. The assignment of \<open>"a"\<close> is done before the
  \<open>del\<close> raises and shows in the base of the wrapper, which holds the same dictionary
  under \<open>"n"\<close>; no overlay is cleared.
\<close>

lemma commit_raises_example:
  "commit (TransactionalDict [(''n'', Dict [(''b'', Scalar (PyInt 0))])]
             [(''n'', Wrapper (TransactionalDict [(''b'', Scalar (PyInt 0))]
                                 [(''a'', Plain (Scalar (PyInt 5))), (''zz'', Undefined)]))])
   = (TransactionalDict [(''n'', Dict [(''b'', Scalar (PyInt 0)), (''a'', Scalar (PyInt 5))])]
        [(''n'', Wrapper (TransactionalDict [(''b'', Scalar (PyInt 0)), (''a'', Scalar (PyInt 5))]
                            [(''a'', Plain (Scalar (PyInt 5))), (''zz'', Undefined)]))],
      Some (KeyError (Key ''zz'')))"
  by (simp add: shared_def)

section \<open>The base is not written before commit\<close>

lemma original_getitem: "getitem key self = Inr (item, self') \<Longrightarrow> original self' = original self"
  by (auto simp: getitem_def split: option.splits item.splits)

lemma original_setitem: "original (setitem key v self) = original self"
  by (simp add: setitem_def)

lemma original_delitem: "delitem key self = Inr self' \<Longrightarrow> original self' = original self"
  by (auto simp: delitem_def split: if_splits)

lemma original_call: "original (call c self) = original self"
  by (cases c) (auto simp: original_setitem split: sum.splits dest: original_getitem original_delitem)

lemma original_at_path:
  "(\<And>t. original (f t) = original t) \<Longrightarrow> original (at_path path f self) = original self"
  by (cases path) (auto split: option.splits item.splits)

lemma original_run: "original (run cs self) = original self"
  by (induction cs arbitrary: self) (auto simp: original_at_path original_call)

lemma original_abort: "original (abort self) = original self"
  by (cases self) simp

lemma overlay_abort: "overlay (abort self) = []"
  by (cases self) simp

section \<open>Validity is kept\<close>

lemma valid_items_iff: "valid_items ov orig \<longleftrightarrow> list_all (valid_item orig) ov"
proof (induction ov)
  case Nil
  then show ?case by simp
next
  case (Cons p ov)
  obtain key i where p: "p = (key, i)" by (cases p)
  show ?case using Cons by (cases i) (simp_all add: p)
qed

lemma valid_items_dict_set:
  "valid_items ov orig \<Longrightarrow> valid_item orig (key, i) \<Longrightarrow> valid_items (dict_set key i ov) orig"
  using set_dict_set[of key i ov] by (auto simp: valid_items_iff list_all_iff)

lemma valid_items_dict_del: "valid_items ov orig \<Longrightarrow> valid_items (dict_del key ov) orig"
  using set_dict_del[of key ov] by (auto simp: valid_items_iff list_all_iff)

lemma valid_init: "valid (init b)"
  by (simp add: init_def)

lemma valid_wrap: "map_of orig key = Some v \<Longrightarrow> valid_item orig (key, wrap v)"
  by (cases v) (simp_all add: valid_init, simp add: init_def)

lemma valid_getitem: "valid self \<Longrightarrow> getitem key self = Inr (item, self') \<Longrightarrow> valid self'"
  by (cases self)
    (auto simp: getitem_def distinct_dict_set valid_items_dict_set valid_wrap
          split: option.splits item.splits)

lemma valid_setitem: "valid self \<Longrightarrow> valid (setitem key v self)"
  by (cases self) (simp add: setitem_def distinct_dict_set valid_items_dict_set)

lemma valid_delitem: "valid self \<Longrightarrow> delitem key self = Inr self' \<Longrightarrow> valid self'"
  by (cases self)
    (auto simp: delitem_def distinct_dict_set distinct_dict_del valid_items_dict_set
          valid_items_dict_del split: if_splits)

lemma valid_call: "valid self \<Longrightarrow> valid (call c self)"
  by (cases c) (auto simp: valid_setitem split: sum.splits dest: valid_getitem valid_delitem)

lemma valid_lookup:
  "valid self \<Longrightarrow> map_of (overlay self) key = Some (Wrapper w) \<Longrightarrow>
     valid w \<and> map_of (original self) key = Some (Dict (original w))"
  by (cases self) (auto simp: valid_items_iff list_all_iff dest!: map_of_SomeD)

lemma valid_at_path:
  assumes f: "\<And>t. valid t \<Longrightarrow> valid (f t)" and o: "\<And>t. original (f t) = original t"
  shows "valid self \<Longrightarrow> valid (at_path path f self)"
proof (induction path arbitrary: self)
  case Nil
  then show ?case by (simp add: f)
next
  case (Cons key path)
  show ?case
  proof (cases "map_of (overlay self) key")
    case None
    then show ?thesis using Cons.prems by simp
  next
    case (Some i)
    show ?thesis
    proof (cases i)
      case Undefined
      then show ?thesis using Cons.prems Some by simp
    next
      case (Plain v)
      then show ?thesis using Cons.prems Some by simp
    next
      case (Wrapper w)
      have w: "valid w" "map_of (original self) key = Some (Dict (original w))"
        using valid_lookup[OF Cons.prems, of key w] by (simp_all add: Some Wrapper)
      have "valid (at_path path f w)" using w(1) by (rule Cons.IH)
      moreover have "original (at_path path f w) = original w"
        by (rule original_at_path) (rule o)
      ultimately have "valid_item (original self) (key, Wrapper (at_path path f w))"
        using w(2) by simp
      then show ?thesis using Cons.prems Some Wrapper
        by (cases self) (simp add: distinct_dict_set valid_items_dict_set)
    qed
  qed
qed

lemma valid_run: "valid self \<Longrightarrow> valid (run cs self)"
  by (induction cs arbitrary: self) (auto simp: valid_at_path valid_call original_call)

text \<open>
  Claim C1. Whatever sequence of get, set and delete calls is made on a wrapper around
  the base \<open>b\<close> and on the nested wrappers reached through it, the base of the wrapper
  is still \<open>b\<close>, and the base of every nested wrapper is still the dictionary that
  \<open>b\<close> holds under its key; and after \<open>abort\<close> the base is \<open>b\<close>, which \<open>abort\<close>
  returns, and the overlay is empty.
\<close>

theorem base_unchanged_until_commit:
  "original (run cs (init b)) = b
   \<and> valid (run cs (init b))
   \<and> original (abort (run cs (init b))) = b
   \<and> overlay (abort (run cs (init b))) = []"
  by (simp add: original_run original_abort overlay_abort valid_run valid_init) (simp add: init_def)

section \<open>commit returns\<close>

lemma valid_item_base_set:
  "valid_item orig p \<Longrightarrow> fst p \<noteq> key \<Longrightarrow> valid_item (dict_set key v orig) p"
  by (cases "(orig, p)" rule: valid_item.cases) (auto simp: map_of_dict_set)

lemma valid_item_base_del:
  "valid_item orig p \<Longrightarrow> fst p \<noteq> key \<Longrightarrow> valid_item (dict_del key orig) p"
  by (cases "(orig, p)" rule: valid_item.cases) (auto simp: map_of_dict_del)

lemma valid_items_base_set:
  "valid_items ov orig \<Longrightarrow> key \<notin> fst ` set ov \<Longrightarrow> valid_items ov (dict_set key v orig)"
  by (force simp: valid_items_iff list_all_iff intro: valid_item_base_set)

lemma valid_items_base_del:
  "valid_items ov orig \<Longrightarrow> key \<notin> fst ` set ov \<Longrightarrow> valid_items ov (dict_del key orig)"
  by (force simp: valid_items_iff list_all_iff intro: valid_item_base_del)

lemma commit_returns_aux:
  fixes t :: "('k, 'a) tdict" and items :: "('k \<times> ('k, 'a) item) list"
  shows "valid t \<Longrightarrow> snd (commit t) = None"
  and "distinct (map fst items) \<Longrightarrow> valid_items items orig
        \<Longrightarrow> snd (snd (commit_loop items orig)) = None"
proof (induction t and items orig rule: commit_commit_loop.induct)
  case (1 orig ov)
  then have "snd (snd (commit_loop ov orig)) = None" by simp
  then show ?case by (cases "commit_loop ov orig") simp
next
  case (2 orig)
  then show ?case by simp
next
  case (3 key w rest orig)
  from 3 have "snd (commit w) = None" by simp
  then obtain x where x: "commit w = (x, None)" by (cases "commit w") simp
  have "valid_items rest (dict_set key (Dict (original x)) orig)"
    using "3.prems" by (simp add: valid_items_base_set)
  then have "snd (snd (commit_loop rest (dict_set key (Dict (original x)) orig))) = None"
    using "3.IH"(2)[of x None] x "3.prems" by simp
  then show ?case using x by (auto split: prod.splits)
next
  case (4 key rest orig)
  have k: "map_of orig key \<noteq> None" using "4.prems" by simp
  have "valid_items rest (dict_del key orig)"
    using "4.prems" by (simp add: valid_items_base_del)
  then have "snd (snd (commit_loop rest (dict_del key orig))) = None"
    using "4.IH" k "4.prems" by simp
  then show ?case using k by (auto split: prod.splits)
next
  case (5 key v rest orig)
  have "valid_items rest (dict_set key v orig)"
    using "5.prems" by (simp add: valid_items_base_set)
  then have "snd (snd (commit_loop rest (dict_set key v orig))) = None"
    using "5.IH" "5.prems" by simp
  then show ?case by (auto split: prod.splits)
qed

text \<open>
  \<open>commit\<close> raises nothing in any state that calls on a new wrapper and on its nested
  wrappers lead to.
\<close>

lemma commit_returns: "snd (commit (run cs (init b))) = None"
  by (rule commit_returns_aux(1)) (simp add: valid_run valid_init)

text \<open>
  Claim C6. When \<open>commit\<close> has returned, the overlay is empty, and a second \<open>commit\<close>
  right after it raises nothing, changes nothing and returns the same base.
\<close>

theorem commit_idempotent:
  "snd (commit self) = None \<Longrightarrow>
     overlay (fst (commit self)) = []
     \<and> commit (fst (commit self)) = (fst (commit self), None)
     \<and> original (fst (commit (fst (commit self)))) = original (fst (commit self))"
  by (cases self) (auto split: prod.splits option.splits)

theorem commit_idempotent_witness:
  "snd (commit (TransactionalDict [(''2'', Scalar (PyInt 2)), (''n'', Dict [(''1'', Scalar (PyInt 1))])]
          [(''1'', Plain (Scalar (PyStr ''a''))), (''2'', Undefined),
           (''n'', Wrapper (TransactionalDict [(''1'', Scalar (PyInt 1))] [(''1'', Plain (Scalar (PyInt 2)))]))])) = None
   \<and> commit (fst (commit (TransactionalDict [(''2'', Scalar (PyInt 2)), (''n'', Dict [(''1'', Scalar (PyInt 1))])]
          [(''1'', Plain (Scalar (PyStr ''a''))), (''2'', Undefined),
           (''n'', Wrapper (TransactionalDict [(''1'', Scalar (PyInt 1))] [(''1'', Plain (Scalar (PyInt 2)))]))])))
     = (TransactionalDict [(''n'', Dict [(''1'', Scalar (PyInt 2))]), (''1'', Scalar (PyStr ''a''))] [], None)"
  using commit_idempotent [of "TransactionalDict [(''2'', Scalar (PyInt 2)), (''n'', Dict [(''1'', Scalar (PyInt 1))])]
          [(''1'', Plain (Scalar (PyStr ''a''))), (''2'', Undefined),
           (''n'', Wrapper (TransactionalDict [(''1'', Scalar (PyInt 1))] [(''1'', Plain (Scalar (PyInt 2)))]))]"]
  by simp

section \<open>The single methods\<close>

text \<open>
  Claim C2. \<open>__getitem__\<close> by cases: a deletion marker in the overlay raises the
  "deleted in current transaction" error; any other entry of the overlay is returned
  as it is and nothing changes; a key of the base only is returned, wrapped in a new
  wrapper when it is a dictionary, and the returned item is stored in the overlay;
  a key of neither raises \<open>KeyError(key)\<close>. Whenever the call returns, the overlay
  holds the returned item under the key and the base is as before.
\<close>

theorem getitem_by_cases:
  "getitem key self =
     (case map_of (overlay self) key of
        Some Undefined \<Rightarrow> Inl (KeyError (Deleted_in_transaction key))
      | Some (Plain v) \<Rightarrow> Inr (Plain v, self)
      | Some (Wrapper w) \<Rightarrow> Inr (Wrapper w, self)
      | None \<Rightarrow>
          (case map_of (original self) key of
             Some (Dict d) \<Rightarrow>
               Inr (Wrapper (TransactionalDict d []),
                    TransactionalDict (original self)
                      (dict_set key (Wrapper (TransactionalDict d [])) (overlay self)))
           | Some (Scalar a) \<Rightarrow>
               Inr (Plain (Scalar a),
                    TransactionalDict (original self) (dict_set key (Plain (Scalar a)) (overlay self)))
           | None \<Rightarrow> Inl (KeyError (Key key))))
   \<and> (\<forall>item self'. getitem key self = Inr (item, self') \<longrightarrow>
         map_of (overlay self') = (map_of (overlay self))(key \<mapsto> item)
         \<and> original self' = original self)"
  by (auto simp: getitem_def init_def map_of_dict_set fun_eq_iff split: option.splits item.splits val.splits)

theorem getitem_by_cases_witness:
  "getitem ''n'' (TransactionalDict [(''1'', Scalar (PyInt 1)), (''n'', Dict [(''1'', Scalar (PyInt 1))])] [(''2'', Undefined)])
     = Inr (Wrapper (TransactionalDict [(''1'', Scalar (PyInt 1))] []),
            TransactionalDict [(''1'', Scalar (PyInt 1)), (''n'', Dict [(''1'', Scalar (PyInt 1))])]
              [(''2'', Undefined), (''n'', Wrapper (TransactionalDict [(''1'', Scalar (PyInt 1))] []))])
   \<and> map_of (overlay (TransactionalDict [(''1'', Scalar (PyInt 1)), (''n'', Dict [(''1'', Scalar (PyInt 1))])]
              [(''2'', Undefined), (''n'', Wrapper (TransactionalDict [(''1'', Scalar (PyInt 1))] []))])) ''n''
     = Some (Wrapper (TransactionalDict [(''1'', Scalar (PyInt 1))] []))"
  using getitem_by_cases [of "''n''" "TransactionalDict [(''1'', Scalar (PyInt 1)), (''n'', Dict [(''1'', Scalar (PyInt 1))])] [(''2'', Undefined)]"]
  by simp

text \<open>
  Claim C3. \<open>__delitem__\<close> by cases: for a key of the base the overlay gets the
  deletion marker under the key, whatever it held; for a key of the overlay only the
  entry is removed and no marker is left; for a key of neither it raises the
  "not in original dict nor in transaction" error.
\<close>

theorem delitem_by_cases:
  "(map_of (original self) key \<noteq> None \<longrightarrow>
      (\<exists>self'. delitem key self = Inr self' \<and> original self' = original self
         \<and> map_of (overlay self') = (map_of (overlay self))(key \<mapsto> Undefined)))
   \<and> (map_of (original self) key = None \<and> map_of (overlay self) key \<noteq> None \<longrightarrow>
      (\<exists>self'. delitem key self = Inr self' \<and> original self' = original self
         \<and> map_of (overlay self') = (map_of (overlay self))(key := None)
         \<and> key \<notin> fst ` set (overlay self')))
   \<and> (map_of (original self) key = None \<and> map_of (overlay self) key = None \<longrightarrow>
      delitem key self = Inl (KeyError Not_in_original_nor_transaction))"
  by (simp add: delitem_def map_of_dict_set map_of_dict_del keys_dict_del)

theorem delitem_by_cases_witness:
  "delitem ''2'' (TransactionalDict [(''2'', Scalar (PyInt 2))] [(''2'', Plain (Scalar (PyStr ''b'')))])
     = Inr (TransactionalDict [(''2'', Scalar (PyInt 2))] [(''2'', Undefined)])
   \<and> delitem ''4'' (TransactionalDict [(''2'', Scalar (PyInt 2))] [(''4'', Plain (Scalar (PyInt 4)))])
     = Inr (TransactionalDict [(''2'', Scalar (PyInt 2))] [])
   \<and> delitem ''5'' (TransactionalDict [(''2'', Scalar (PyInt 2))] [(''4'', Plain (Scalar (PyInt 4)))])
     = Inl (KeyError Not_in_original_nor_transaction)"
  using delitem_by_cases [of "TransactionalDict [(''2'', Scalar (PyInt 2))] [(''2'', Plain (Scalar (PyStr ''b'')))]" "''2''"]
    delitem_by_cases [of "TransactionalDict [(''2'', Scalar (PyInt 2))] [(''4'', Plain (Scalar (PyInt 4)))]" "''4''"]
    delitem_by_cases [of "TransactionalDict [(''2'', Scalar (PyInt 2))] [(''4'', Plain (Scalar (PyInt 4)))]" "''5''"]
  by (simp add: delitem_def)

lemma private_keys_eq:
  "private_keys self =
     (fst ` set (original self) \<union> fst ` set (overlay self))
       - {key. map_of (overlay self) key = Some Undefined}"
  by (auto simp: private_keys_def)

text \<open>
  Claim C7. \<open>__len__\<close> is to return the number of keys of the key set. \<open>__keys\<close>
  builds that set, and \<open>len\<close> of it is the number. But \<open>__len__\<close> applies \<open>len\<close> to
  the iterator that \<open>__iter__\<close> returns, not to the set, and so raises \<open>TypeError\<close> in
  every state.
\<close>

theorem len_raises_TypeError:
  "len self = Inl TypeError
   \<and> builtin_len (PySet (private_keys self))
       = Inr (card ((fst ` set (original self) \<union> fst ` set (overlay self))
                     - {key. map_of (overlay self) key = Some Undefined}))"
  by (simp add: len_def iter_def private_keys_eq)

text \<open>
  Claim C8. After a deletion of \<open>key\<close> that succeeded, an assignment of \<open>v\<close> to \<open>key\<close>
  replaces the entry of the overlay, deletion marker or not, and reading \<open>key\<close> returns
  \<open>v\<close> and leaves the wrapper as it is.
\<close>

theorem get_after_delete_and_set:
  "delitem key self = Inr self1 \<Longrightarrow>
     getitem key (setitem key v self1) = Inr (Plain v, setitem key v self1)
     \<and> map_of (overlay (setitem key v self1)) key = Some (Plain v)"
  by (simp add: getitem_def setitem_def map_of_dict_set)

theorem get_after_delete_and_set_witness:
  "delitem ''2'' (init [(''2'', Scalar (PyInt 2))]) = Inr (TransactionalDict [(''2'', Scalar (PyInt 2))] [(''2'', Undefined)])
   \<and> getitem ''2'' (TransactionalDict [(''2'', Scalar (PyInt 2))] [(''2'', Undefined)])
       = Inl (KeyError (Deleted_in_transaction ''2''))
   \<and> getitem ''2'' (setitem ''2'' (Scalar (PyStr ''b'')) (TransactionalDict [(''2'', Scalar (PyInt 2))] [(''2'', Undefined)]))
       = Inr (Plain (Scalar (PyStr ''b'')), TransactionalDict [(''2'', Scalar (PyInt 2))] [(''2'', Plain (Scalar (PyStr ''b'')))])"
  using get_after_delete_and_set [of "''2''" "init [(''2'', Scalar (PyInt 2))]"
      "TransactionalDict [(''2'', Scalar (PyInt 2))] [(''2'', Undefined)]" "Scalar (PyStr ''b'')"]
  by (simp add: delitem_def init_def getitem_def setitem_def)

section \<open>The context manager\<close>

text \<open>
  Claim C4. \<open>transaction\<close> makes one wrapper around the dictionary and runs the body
  with it. When the body completes, \<open>commit\<close> is called on the wrapper: the base is
  the one \<open>commit\<close> leaves, and the wrapper is the committed one when \<open>commit\<close>
  returns. When the body raises an exception derived from \<open>Exception\<close>, \<open>abort\<close> is
  called on the wrapper and the same exception is raised again. An argument that is a
  \<open>TransactionalDict\<close>, or no dictionary at all, fails the assertion, whatever the body.
\<close>

theorem transaction_commits_or_aborts:
  "(body (init d) = (t, None) \<longrightarrow>
      snd (transaction (DictArg d) body) = snd (commit t)
      \<and> map_option original (fst (transaction (DictArg d) body)) = Some (original (fst (commit t)))
      \<and> (snd (commit t) = None \<longrightarrow> transaction (DictArg d) body = (Some (fst (commit t)), None)))
   \<and> (body (init d) = (t, Some e) \<and> is_Exception e \<longrightarrow>
      transaction (DictArg d) body = (Some (abort t), Some e))
   \<and> transaction (TransactionalDictArg w) body = (None, Some AssertionError)
   \<and> transaction (OtherArg x) body = (None, Some AssertionError)"
  by (auto simp: handler_def original_abort split: prod.splits option.splits)


theorem transaction_commits_or_aborts_witness:
  "transaction (DictArg [(1::int, Scalar (PyInt 1))]) (\<lambda>rw. (setitem 1 (Scalar (PyStr ''a'')) rw, None))
     = (Some (TransactionalDict [(1, Scalar (PyStr ''a''))] []), None)
   \<and> transaction (DictArg [(1::int, Scalar (PyInt 1))])
        (\<lambda>rw. (setitem 1 (Scalar (PyStr ''a'')) rw, Some (OtherException ''Exception'')))
     = (Some (TransactionalDict [(1, Scalar (PyInt 1))] []), Some (OtherException ''Exception''))"
  using transaction_commits_or_aborts [where body = "\<lambda>rw. (setitem 1 (Scalar (PyStr ''a'')) rw, None)"
      and d = "[(1::int, Scalar (PyInt 1))]"
      and t = "TransactionalDict [(1::int, Scalar (PyInt 1))] [(1, Plain (Scalar (PyStr ''a'')))]"]
    transaction_commits_or_aborts [where body = "\<lambda>rw. (setitem 1 (Scalar (PyStr ''a'')) rw, Some (OtherException ''Exception''))"
      and d = "[(1::int, Scalar (PyInt 1))]"
      and t = "TransactionalDict [(1::int, Scalar (PyInt 1))] [(1, Plain (Scalar (PyStr ''a'')))]"
      and e = "OtherException ''Exception''"]
  by (simp add: setitem_def init_def)

section \<open>What diff reports\<close>

lemma map_of_diff_loop:
  "distinct (map fst rest) \<Longrightarrow>
     map_of (diff_loop rest orig ov acc) key =
       (case map_of rest key of
          None \<Rightarrow> map_of acc key
        | Some (Wrapper w) \<Rightarrow> Some (Nested (diff w))
        | Some _ \<Rightarrow> Some (Change (original_get orig key) (dict_get ov key Undefined)))"
proof (induction rest arbitrary: acc)
  case Nil
  then show ?case by simp
next
  case (Cons p rest)
  obtain k i where p: "p = (k, i)" by (cases p)
  have d: "distinct (map fst rest)" and k: "map_of rest k = None"
    using Cons.prems by (simp_all add: p map_of_eq_None_iff)
  show ?case
    using Cons.IH[OF d] k
    by (cases i) (auto simp: p map_of_dict_set split: option.splits item.splits)
qed

lemma map_of_diff:
  "distinct (map fst (overlay self)) \<Longrightarrow>
     map_of (diff self) key =
       (case map_of (overlay self) key of
          None \<Rightarrow> None
        | Some (Wrapper w) \<Rightarrow> Some (Nested (diff w))
        | Some i \<Rightarrow> Some (Change (original_get (original self) key) i))"
  by (cases self) (simp add: map_of_diff_loop dict_get_def split: option.splits item.splits)

lemma distinct_overlay_call:
  "distinct (map fst (overlay self)) \<Longrightarrow> distinct (map fst (overlay (call c self)))"
  by (cases c)
    (auto simp: getitem_def setitem_def delitem_def distinct_dict_set distinct_dict_del
          split: option.splits item.splits if_splits)

lemma distinct_overlay_at_path:
  "distinct (map fst (overlay self)) \<Longrightarrow>
     distinct (map fst (overlay (at_path path (call c) self)))"
  by (cases path) (auto simp: distinct_overlay_call distinct_dict_set split: option.splits item.splits)

lemma overlay_call_leaves:
  "leaves key ([], c) \<Longrightarrow> map_of (overlay self) key = Some item \<Longrightarrow>
     map_of (overlay (call c self)) key = Some item"
  by (cases c)
    (auto simp: getitem_def setitem_def delitem_def map_of_dict_set map_of_dict_del
          split: option.splits item.splits if_splits)

lemma overlay_at_path_leaves:
  "leaves key (path, c) \<Longrightarrow> map_of (overlay self) key = Some item \<Longrightarrow>
     map_of (overlay (at_path path (call c) self)) key = Some item"
  by (cases path) (auto simp: overlay_call_leaves map_of_dict_set split: option.splits item.splits)

lemma run_leaves:
  "list_all (leaves key) cs \<Longrightarrow> distinct (map fst (overlay self)) \<Longrightarrow>
     map_of (overlay self) key = Some item \<Longrightarrow>
     distinct (map fst (overlay (run cs self))) \<and> map_of (overlay (run cs self)) key = Some item"
proof (induction cs arbitrary: self)
  case Nil
  then show ?case by simp
next
  case (Cons pc cs)
  obtain path c where pc: "pc = (path, c)" by (cases pc)
  have "distinct (map fst (overlay (at_path path (call c) self)))"
    using Cons.prems(2) by (rule distinct_overlay_at_path)
  moreover have "map_of (overlay (at_path path (call c) self)) key = Some item"
    using Cons.prems by (simp add: pc overlay_at_path_leaves)
  ultimately show ?case
    using Cons.IH[of "at_path path (call c) self"] Cons.prems(1) by (simp add: pc)
qed

lemma diff_init: "diff (init d) = []"
  by (simp add: init_def)

text \<open>
  Claim C9. A key of the base that is read and then left alone is in \<open>diff\<close>: with the
  pair \<open>(v, v)\<close> when its value is a scalar, with an empty nested diff when its value
  is a dictionary. For the dictionary, "left alone" has to exclude reads inside it as
  well as edits: a read of a key inside the nested wrapper is cached in the overlay of
  the nested wrapper and is an entry of the nested diff. After \<open>d["n"]\<close> and
  \<open>d["n"]["a"]\<close> on the base \<open>{"n": {"a": 1}}\<close>, with no edit at all, \<open>diff\<close> is
  \<open>{"n": {"a": (1, 1)}}\<close>.
\<close>

theorem nested_read_counterexample:
  "map_of (diff (run [([], Get ''n''), ([''n''], Get ''a'')]
                   (init [(''n'', Dict [(''a'', Scalar (PyInt 1))])]))) ''n''
     = Some (Nested [(''a'', Change (Plain (Scalar (PyInt 1))) (Plain (Scalar (PyInt 1))))])
   \<and> map_of (diff (run [([], Get ''n''), ([''n''], Get ''a'')]
                   (init [(''n'', Dict [(''a'', Scalar (PyInt 1))])]))) ''n''
     \<noteq> Some (Nested [])"
  by (simp add: init_def getitem_def original_get_def dict_get_def)

text \<open>
  Claim C9, amended. A key of the base that is read, and then neither assigned nor
  deleted, with no call on the nested wrapper under it or below it, is in \<open>diff\<close>:
  with the pair \<open>(v, v)\<close> when its value is a scalar, with an empty nested diff when
  its value is a dictionary.
\<close>

theorem diff_reports_reads:
  assumes "distinct (map fst (overlay self))"
    and "map_of (overlay self) key = None"
    and "map_of (original self) key = Some v"
    and "list_all (leaves key) cs"
  shows "\<exists>self1. getitem key self = Inr (wrap v, self1)
           \<and> map_of (diff (run cs self1)) key =
               Some (case v of Scalar a \<Rightarrow> Change (Plain (Scalar a)) (Plain (Scalar a))
                             | Dict d \<Rightarrow> Nested [])"
proof -
  define self1 where "self1 = TransactionalDict (original self) (dict_set key (wrap v) (overlay self))"
  have g: "getitem key self = Inr (wrap v, self1)"
    using assms(2,3) by (simp add: getitem_def self1_def)
  have d1: "distinct (map fst (overlay self1))"
    using assms(1) by (simp add: self1_def distinct_dict_set)
  have m1: "map_of (overlay self1) key = Some (wrap v)"
    by (simp add: self1_def map_of_dict_set)
  have r: "distinct (map fst (overlay (run cs self1)))"
      "map_of (overlay (run cs self1)) key = Some (wrap v)"
    using run_leaves[OF assms(4) d1 m1] by simp_all
  have o: "original_get (original (run cs self1)) key = Plain v"
    using assms(3) by (simp add: original_run self1_def original_get_def)
  have "map_of (diff (run cs self1)) key =
          Some (case v of Scalar a \<Rightarrow> Change (Plain (Scalar a)) (Plain (Scalar a))
                        | Dict d \<Rightarrow> Nested [])"
    using r o by (cases v) (simp_all add: map_of_diff diff_init)
  then show ?thesis using g by blast
qed

theorem diff_reports_reads_witness:
  "getitem ''x'' (init [(''x'', Scalar (PyInt 1)), (''n'', Dict [(''a'', Scalar (PyInt 1))])])
     = Inr (Plain (Scalar (PyInt 1)),
            TransactionalDict [(''x'', Scalar (PyInt 1)), (''n'', Dict [(''a'', Scalar (PyInt 1))])]
              [(''x'', Plain (Scalar (PyInt 1)))])
   \<and> map_of (diff (run [([], Set ''z'' (Scalar (PyInt 3)))]
          (TransactionalDict [(''x'', Scalar (PyInt 1)), (''n'', Dict [(''a'', Scalar (PyInt 1))])]
             [(''x'', Plain (Scalar (PyInt 1)))]))) ''x''
     = Some (Change (Plain (Scalar (PyInt 1))) (Plain (Scalar (PyInt 1))))
   \<and> getitem ''n'' (init [(''x'', Scalar (PyInt 1)), (''n'', Dict [(''a'', Scalar (PyInt 1))])])
     = Inr (Wrapper (TransactionalDict [(''a'', Scalar (PyInt 1))] []),
            TransactionalDict [(''x'', Scalar (PyInt 1)), (''n'', Dict [(''a'', Scalar (PyInt 1))])]
              [(''n'', Wrapper (TransactionalDict [(''a'', Scalar (PyInt 1))] []))])
   \<and> map_of (diff (run [([], Get ''x'')]
          (TransactionalDict [(''x'', Scalar (PyInt 1)), (''n'', Dict [(''a'', Scalar (PyInt 1))])]
             [(''n'', Wrapper (TransactionalDict [(''a'', Scalar (PyInt 1))] []))]))) ''n''
     = Some (Nested [])"
  using diff_reports_reads [where self = "init [(''x'', Scalar (PyInt 1)), (''n'', Dict [(''a'', Scalar (PyInt 1))])]"
      and key = "''x''" and v = "Scalar (PyInt 1)" and cs = "[([], Set ''z'' (Scalar (PyInt 3)))]"]
    diff_reports_reads [where self = "init [(''x'', Scalar (PyInt 1)), (''n'', Dict [(''a'', Scalar (PyInt 1))])]"
      and key = "''n''" and v = "Dict [(''a'', Scalar (PyInt 1))]" and cs = "[([], Get ''x'')]"]
  by (simp add: init_def getitem_def setitem_def)

text \<open>
  Claim C10. A dictionary assigned to a key is stored as a plain value: as long as the
  key is left alone, reading the key returns the dictionary itself, not a wrapper, and
  \<open>diff\<close> reports the key with the flat pair of the old value and the dictionary, not
  with a nested diff. There is no nested wrapper under the key, so the transaction has
  no overlay in which edits inside the dictionary could be recorded one by one.
\<close>

theorem set_mapping_not_wrapped:
  assumes "distinct (map fst (overlay self))"
    and "list_all (leaves key) cs"
  shows "getitem key (run cs (setitem key (Dict m) self))
           = Inr (Plain (Dict m), run cs (setitem key (Dict m) self))
         \<and> map_of (diff (run cs (setitem key (Dict m) self))) key
           = Some (Change (original_get (original self) key) (Plain (Dict m)))"
proof -
  let ?s = "setitem key (Dict m) self"
  have d1: "distinct (map fst (overlay ?s))"
    using assms(1) by (simp add: setitem_def distinct_dict_set)
  have m1: "map_of (overlay ?s) key = Some (Plain (Dict m))"
    by (simp add: setitem_def map_of_dict_set)
  have r: "distinct (map fst (overlay (run cs ?s)))"
      "map_of (overlay (run cs ?s)) key = Some (Plain (Dict m))"
    using run_leaves[OF assms(2) d1 m1] by simp_all
  have o: "original (run cs ?s) = original self"
    by (simp add: original_run original_setitem)
  show ?thesis using r o by (simp add: getitem_def map_of_diff)
qed

theorem set_mapping_not_wrapped_witness:
  "getitem ''k'' (run [([], Get ''2'')]
      (setitem ''k'' (Dict [(''a'', Scalar (PyInt 1))])
         (init [(''k'', Dict [(''a'', Scalar (PyInt 0))]), (''2'', Scalar (PyInt 2))])))
     = Inr (Plain (Dict [(''a'', Scalar (PyInt 1))]),
            TransactionalDict [(''k'', Dict [(''a'', Scalar (PyInt 0))]), (''2'', Scalar (PyInt 2))]
              [(''k'', Plain (Dict [(''a'', Scalar (PyInt 1))])), (''2'', Plain (Scalar (PyInt 2)))])
   \<and> diff (run [([], Get ''2'')]
      (setitem ''k'' (Dict [(''a'', Scalar (PyInt 1))])
         (init [(''k'', Dict [(''a'', Scalar (PyInt 0))]), (''2'', Scalar (PyInt 2))])))
     = [(''k'', Change (Plain (Dict [(''a'', Scalar (PyInt 0))])) (Plain (Dict [(''a'', Scalar (PyInt 1))]))),
        (''2'', Change (Plain (Scalar (PyInt 2))) (Plain (Scalar (PyInt 2))))]"
  using set_mapping_not_wrapped [where self = "init [(''k'', Dict [(''a'', Scalar (PyInt 0))]), (''2'', Scalar (PyInt 2))]"
      and cs = "[([], Get ''2'')]" and key = "''k''" and m = "[(''a'', Scalar (PyInt 1))]"]
  by (simp add: init_def getitem_def setitem_def original_get_def dict_get_def)

section \<open>The example of diff and commit\<close>

text \<open>
  Claim C5. On a new wrapper around \<open>{"x": 1}\<close>, after \<open>set("x", "y")\<close> and
  \<open>set("z", 3)\<close>, \<open>diff\<close> returns \<open>{"x": (1, "y"), "z": (Undefined, 3)}\<close>, and \<open>commit\<close>
  raises nothing and leaves the base \<open>{"x": "y", "z": 3}\<close>.
\<close>

theorem diff_and_commit_example:
  "diff (setitem ''z'' (Scalar (PyInt 3)) (setitem ''x'' (Scalar (PyStr ''y'')) (init [(''x'', Scalar (PyInt 1))])))
     = [(''x'', Change (Plain (Scalar (PyInt 1))) (Plain (Scalar (PyStr ''y'')))),
        (''z'', Change Undefined (Plain (Scalar (PyInt 3))))]
   \<and> commit (setitem ''z'' (Scalar (PyInt 3)) (setitem ''x'' (Scalar (PyStr ''y'')) (init [(''x'', Scalar (PyInt 1))])))
     = (TransactionalDict [(''x'', Scalar (PyStr ''y'')), (''z'', Scalar (PyInt 3))] [], None)"
  by (simp add: setitem_def init_def original_get_def dict_get_def)

end
